theory Spec2Isabelle
  imports Complex_Main
begin

section \<open>PLANEXA: the floor plan client (frontend/script.js)\<close>

text \<open>
  The repository's sources are the browser client, \<^verbatim>\<open>frontend/script.js\<close> (the class
  \<^verbatim>\<open>FloorPlanGenerator\<close>), and its README. The client collects the form's inputs,
  posts them to the backend, stores the answer, and draws one floor of it as SVG.

  Naming: a JavaScript object becomes a record, and a field \<^verbatim>\<open>o.f\<close> keeps the name
  \<^verbatim>\<open>f\<close> behind a prefix that names its object (\<^verbatim>\<open>room.x\<close> is \<open>room_x\<close>,
  \<^verbatim>\<open>floorData.width\<close> is \<open>floor_width\<close>), since several objects share field names.
  The fields of \<^verbatim>\<open>this\<close> and the methods keep their names.
  Calls of \<^verbatim>\<open>console.log\<close>, the styling of elements, the generate button's label, the
  3D view and the two export requests change nothing that is modelled here and are left
  out.
\<close>

subsection \<open>JavaScript values\<close>

text \<open>
  A number that may be missing: \<open>None\<close> stands for \<^verbatim>\<open>undefined\<close> and for \<^verbatim>\<open>NaN\<close>.
  The client treats both alike: each is falsy, and arithmetic on each gives \<^verbatim>\<open>NaN\<close>.
  Numbers are exact (\<open>real\<close>, or \<open>int\<close> where the code makes integers); the rounding
  of IEEE doubles is not modelled.
\<close>

type_synonym jsnum = "real option"

text \<open>
  \<^verbatim>\<open>v || d\<close> for a number \<open>v\<close> and a non-zero default \<open>d\<close>: the default replaces
  every falsy \<open>v\<close>, that is \<^verbatim>\<open>undefined\<close>, \<^verbatim>\<open>NaN\<close> and also \<open>0\<close>.
\<close>

definition js_or :: "('a::zero) option \<Rightarrow> 'a \<Rightarrow> 'a" where
  "js_or v d = (case v of None \<Rightarrow> d | Some r \<Rightarrow> if r = 0 then d else r)"

text \<open>\<^verbatim>\<open>s || d\<close> for a string that may be missing: the empty string is falsy.\<close>

definition js_or_string :: "string option \<Rightarrow> string \<Rightarrow> string" where
  "js_or_string v d = (case v of None \<Rightarrow> d | Some s \<Rightarrow> if s = [] then d else s)"

text \<open>
  \<^verbatim>\<open>xs[i]\<close>: reading a JavaScript array never fails; outside \<open>0 .. length - 1\<close> the
  value is \<^verbatim>\<open>undefined\<close>.
\<close>

definition js_index :: "'a list \<Rightarrow> int \<Rightarrow> 'a option" where
  "js_index xs i = (if 0 \<le> i \<and> i < int (length xs) then Some (xs ! nat i) else None)"

text \<open>
  \<^verbatim>\<open>parseInt(string)\<close> with no radix, as ECMAScript defines it: leading white space
  is dropped, one sign is read, a prefix \<^verbatim>\<open>0x\<close> or \<^verbatim>\<open>0X\<close> selects radix 16, and the
  longest run of digits is the value; with no digit the result is \<^verbatim>\<open>NaN\<close> (\<open>None\<close>).
  What follows the digits is ignored. White space is the ASCII white space (the white
  space beyond ASCII is not modelled), and the value is the exact integer.
\<close>

definition isWhiteSpace :: "char \<Rightarrow> bool" where
  "isWhiteSpace c = (c \<in> set [CHR 0x09, CHR 0x0A, CHR 0x0B, CHR 0x0C, CHR 0x0D, CHR 0x20])"

definition digitValue :: "nat \<Rightarrow> char \<Rightarrow> nat option" where
  "digitValue radix c =
     (let n = (of_char c :: nat);
          v = (if 48 \<le> n \<and> n \<le> 57 then Some (n - 48)
               else if 97 \<le> n \<and> n \<le> 122 then Some (n - 87)
               else if 65 \<le> n \<and> n \<le> 90 then Some (n - 55)
               else None)
      in case v of None \<Rightarrow> None | Some d \<Rightarrow> if d < radix then Some d else None)"

fun parseDigits :: "nat \<Rightarrow> string \<Rightarrow> nat option \<Rightarrow> nat option" where
  "parseDigits radix [] acc = acc"
| "parseDigits radix (c # cs) acc =
     (case digitValue radix c of
        None \<Rightarrow> acc
      | Some d \<Rightarrow> parseDigits radix cs (Some (case acc of None \<Rightarrow> d | Some a \<Rightarrow> a * radix + d)))"

definition parseInt :: "string \<Rightarrow> int option" where
  "parseInt s =
     (let t = dropWhile isWhiteSpace s;
          negative = (case t of [] \<Rightarrow> False | c # _ \<Rightarrow> c = CHR ''-'');
          u = (case t of [] \<Rightarrow> t | c # r \<Rightarrow> if c = CHR ''-'' \<or> c = CHR ''+'' then r else t);
          hex = (case u of a # b # _ \<Rightarrow> a = CHR ''0'' \<and> (b = CHR ''x'' \<or> b = CHR ''X'') | _ \<Rightarrow> False);
          digits = parseDigits (if hex then 16 else 10) (if hex then drop 2 u else u) None
      in case digits of
           None \<Rightarrow> None
         | Some n \<Rightarrow> Some (if negative then - int n else int n))"

subsection \<open>The generation request: getInputSpecifications\<close>

text \<open>
  The form, as the method reads it: the \<^verbatim>\<open>value\<close> of the inputs \<^verbatim>\<open>width\<close>,
  \<^verbatim>\<open>length\<close>, \<^verbatim>\<open>floors\<close> and \<^verbatim>\<open>style\<close>, the two check boxes, and for every
  \<^verbatim>\<open>.room-input\<close> element, in document order, the values of its \<^verbatim>\<open>.room-type\<close> and
  its \<^verbatim>\<open>.room-count\<close>.
\<close>

record form =
  width_value :: string
  length_value :: string
  floors_value :: string
  room_inputs :: "(string \<times> string) list"
  style_value :: string
  furniture_checked :: bool
  windows_checked :: bool

record room_request =
  req_type :: string
  req_count :: int

record specs =
  spec_width :: int
  spec_length :: int
  spec_floors :: int
  spec_rooms :: "room_request list"
  spec_style :: string
  spec_include_furniture :: bool
  spec_include_windows :: bool

definition roomReqs :: "form \<Rightarrow> room_request list" where
  "roomReqs f =
     map (\<lambda>(type, count). \<lparr>req_type = type, req_count = js_or (parseInt count) 1\<rparr>) (room_inputs f)"

definition default_rooms :: "room_request list" where
  "default_rooms =
     [\<lparr>req_type = ''bedroom'', req_count = 2\<rparr>, \<lparr>req_type = ''living'', req_count = 1\<rparr>]"

definition getInputSpecifications :: "form \<Rightarrow> specs" where
  "getInputSpecifications f =
     \<lparr>spec_width = js_or (parseInt (width_value f)) 12,
      spec_length = js_or (parseInt (length_value f)) 10,
      spec_floors = js_or (parseInt (floors_value f)) 1,
      spec_rooms = (if length (roomReqs f) > 0 then roomReqs f else default_rooms),
      spec_style = (if style_value f = [] then ''modern'' else style_value f),
      spec_include_furniture = furniture_checked f,
      spec_include_windows = windows_checked f\<rparr>"

subsection \<open>The backend's answer\<close>

text \<open>
  The answer's shape is the output contract of the backend. A field is optional in
  the model exactly where the client tests for its absence (\<^verbatim>\<open>data.floors ? ...\<close>,
  \<^verbatim>\<open>if (data.metrics)\<close>, \<^verbatim>\<open>floorData.rooms && ...\<close>, \<^verbatim>\<open>room.x || 1\<close>,
  \<^verbatim>\<open>data.error || ...\<close>); a field the client reads unguarded has the contract's type.
  A metrics object is a map from field names to numbers, so that an absent field and a
  field of value zero are told apart.
\<close>

type_synonym metrics = "string \<rightharpoonup> real"

record room =
  room_type :: string
  room_x :: jsnum
  room_y :: jsnum
  room_width :: jsnum
  room_length :: jsnum
  room_area :: jsnum

text \<open>A wall and a window are both \<^verbatim>\<open>{x1, y1, x2, y2}\<close>.\<close>

record segment =
  seg_x1 :: real
  seg_y1 :: real
  seg_x2 :: real
  seg_y2 :: real

record door =
  door_x :: real
  door_y :: real

record floor_data =
  floor_number :: int
  floor_width :: real
  floor_length :: real
  floor_rooms :: "room list option"
  floor_walls :: "segment list option"
  floor_windows :: "segment list option"
  floor_doors :: "door list option"
  floor_metrics :: metrics

record response =
  resp_success :: bool
  resp_floors :: "floor_data list option"
  resp_metrics :: "metrics option"
  resp_error :: "string option"

subsection \<open>Drawing one floor\<close>

record svg_rect =
  rect_x :: real
  rect_y :: real
  rect_width :: real
  rect_height :: real
  rect_fill :: string

text \<open>
  The children of the \<^verbatim>\<open>svg\<close> element, in the order they are appended. A room is its
  rectangle and the position of its label (the label's two lines of text are not
  modelled); a door is the corner, the width and the swing radius of its mark.
\<close>

datatype svg_node =
    Grid real
  | RoomGroup svg_rect real real
  | WallLine real real real real
  | WindowLine real real real real
  | DoorMark real real real real
  | NoRoomsMessage real real

record svg =
  viewBox :: "real \<times> real \<times> real \<times> real"
  children :: "svg_node list"

definition getRoomColor :: "string \<Rightarrow> string" where
  "getRoomColor roomType =
     (case map_of
        [(''bedroom'', ''#3498db''), (''living'', ''#2ecc71''), (''kitchen'', ''#e74c3c''),
         (''bathroom'', ''#9b59b6''), (''office'', ''#f39c12''), (''hallway'', ''#bdc3c7''),
         (''stairs'', ''#34495e'')] roomType of
        Some c \<Rightarrow> c
      | None \<Rightarrow> ''#95a5a6'')"

definition addGrid :: "real \<Rightarrow> real \<Rightarrow> svg_node" where
  "addGrid width height = (let gridSize = 50 in Grid gridSize)"

definition renderRoom :: "room \<Rightarrow> svg_node" where
  "renderRoom room =
     (let scale = 50;
          x = js_or (room_x room) 1 * scale;
          y = js_or (room_y room) 1 * scale;
          width = js_or (room_width room) 3 * scale;
          height = js_or (room_length room) 3 * scale;
          rect = \<lparr>rect_x = x, rect_y = y, rect_width = width, rect_height = height,
                  rect_fill = getRoomColor (room_type room)\<rparr>;
          centerX = x + width / 2;
          centerY = y + height / 2
      in RoomGroup rect centerX centerY)"

definition renderWall :: "segment \<Rightarrow> svg_node" where
  "renderWall wall =
     (let scale = 50
      in WallLine (seg_x1 wall * scale) (seg_y1 wall * scale) (seg_x2 wall * scale) (seg_y2 wall * scale))"

definition renderWindow :: "segment \<Rightarrow> svg_node" where
  "renderWindow window =
     (let scale = 50
      in WindowLine (seg_x1 window * scale) (seg_y1 window * scale)
           (seg_x2 window * scale) (seg_y2 window * scale))"

definition renderDoor :: "door \<Rightarrow> svg_node" where
  "renderDoor d =
     (let scale = 50;
          x = door_x d * scale;
          y = door_y d * scale;
          width = (9 / 10) * scale;
          radius = width * (8 / 10)
      in DoorMark x y width radius)"

definition renderNoRoomsMessage :: "real \<Rightarrow> real \<Rightarrow> svg_node" where
  "renderNoRoomsMessage width height = NoRoomsMessage (width / 2) (height / 2)"

text \<open>
  The part of \<^verbatim>\<open>renderFloorPlan\<close> that builds the \<^verbatim>\<open>svg\<close> element from
  \<^verbatim>\<open>floorData\<close>: the view box, the grid, the rooms (or the message that there are
  none), then the walls, the windows and the doors where the floor has them.
\<close>

definition floorSvg :: "floor_data \<Rightarrow> svg" where
  "floorSvg floorData =
     \<lparr>viewBox = (0, 0, floor_width floorData * 50, floor_length floorData * 50),
      children =
        [addGrid (floor_width floorData * 50) (floor_length floorData * 50)]
        @ (case floor_rooms floorData of
             Some rs \<Rightarrow>
               if length rs > 0 then map renderRoom rs
               else [renderNoRoomsMessage (floor_width floorData * 50) (floor_length floorData * 50)]
           | None \<Rightarrow> [renderNoRoomsMessage (floor_width floorData * 50) (floor_length floorData * 50)])
        @ (case floor_walls floorData of
             Some ws \<Rightarrow> if length ws > 0 then map renderWall ws else []
           | None \<Rightarrow> [])
        @ (case floor_windows floorData of
             Some ws \<Rightarrow> if length ws > 0 then map renderWindow ws else []
           | None \<Rightarrow> [])
        @ (case floor_doors floorData of
             Some ds \<Rightarrow> if length ds > 0 then map renderDoor ds else []
           | None \<Rightarrow> [])\<rparr>"

subsection \<open>The client's state\<close>

text \<open>
  An element of the page that the code looks up by id and tests before use may be
  missing; otherwise it holds what the client last wrote into it.
\<close>

datatype 'a element = Missing | Element 'a

datatype container = Welcome | Cleared | ErrorMessage string | Drawing svg

datatype analysis = NoAnalysis | Analysis real real real real

datatype floor_label = NoLabel | FloorLabel int

datatype js_error = Error string | HttpError int | TypeError

text \<open>
  The dialogs the client opens with \<^verbatim>\<open>alert\<close>: the failure of a generation (its text
  contains the message of the error caught), and the end of a test rendering.
\<close>

datatype alert = GenerationFailed js_error | TestComplete

record client =
  currentFloor :: int
  totalFloors :: int
  floorPlanData :: "response option"
  chart :: "real list option"
  svgContainer :: "container element"
  metricsDiv :: "analysis element"
  floorDisplay :: "floor_label element"
  alerts :: "alert list"

text \<open>
  What a call of \<^verbatim>\<open>renderFloorPlan\<close> did: the index at which it read
  \<^verbatim>\<open>this.floorPlanData.floors\<close> (\<open>None\<close> when it did not read the array), the error
  it threw (\<open>None\<close> when it returned), and the state it left.
\<close>

record render_result =
  floorRead :: "int option"
  raised :: "js_error option"
  state_after :: client

text \<open>
  \<^verbatim>\<open>showErrorMessage\<close> assigns to \<^verbatim>\<open>svgContainer.innerHTML\<close> without a test: on a
  page with no such element the assignment throws a TypeError.
\<close>

definition showErrorMessage :: "string \<Rightarrow> client \<Rightarrow> render_result" where
  "showErrorMessage message s =
     (case svgContainer s of
        Missing \<Rightarrow> \<lparr>floorRead = None, raised = Some TypeError, state_after = s\<rparr>
      | Element _ \<Rightarrow>
          \<lparr>floorRead = None, raised = None,
           state_after = s\<lparr>svgContainer := Element (ErrorMessage message)\<rparr>\<rparr>)"

text \<open>
  \<^verbatim>\<open>renderFloorPlan\<close> from the read of \<^verbatim>\<open>floors[floorIndex]\<close> on. The read itself
  cannot fail; an \<^verbatim>\<open>undefined\<close> floor throws at \<^verbatim>\<open>floorData.width\<close>, after the
  container was cleared.
\<close>

definition drawFloor :: "floor_data list \<Rightarrow> int \<Rightarrow> client \<Rightarrow> render_result" where
  "drawFloor fs floorIndex s =
     (let floorData = js_index fs floorIndex
      in case svgContainer s of
           Missing \<Rightarrow> \<lparr>floorRead = Some floorIndex, raised = None, state_after = s\<rparr>
         | Element _ \<Rightarrow>
             (case floorData of
                None \<Rightarrow>
                  \<lparr>floorRead = Some floorIndex, raised = Some TypeError,
                   state_after = s\<lparr>svgContainer := Element Cleared\<rparr>\<rparr>
              | Some f \<Rightarrow>
                  \<lparr>floorRead = Some floorIndex, raised = None,
                   state_after = s\<lparr>svgContainer := Element (Drawing (floorSvg f))\<rparr>\<rparr>))"

definition renderFloorPlan :: "client \<Rightarrow> render_result" where
  "renderFloorPlan s =
     (case floorPlanData s of
        None \<Rightarrow> showErrorMessage ''No floor plan data available. Please generate a floor plan first.'' s
      | Some d \<Rightarrow>
          (case resp_floors d of
             None \<Rightarrow> showErrorMessage ''No floor plan data available. Please generate a floor plan first.'' s
           | Some fs \<Rightarrow>
               if length fs = 0
               then showErrorMessage ''No floor plan data available. Please generate a floor plan first.'' s
               else
                 (let floorIndex = currentFloor s - 1
                  in if floorIndex \<ge> int (length fs)
                     then showErrorMessage ''Invalid floor number'' s
                     else drawFloor fs floorIndex s)))"

subsection \<open>Floor navigation\<close>

definition updateFloorDisplay :: "client \<Rightarrow> render_result" where
  "updateFloorDisplay s =
     renderFloorPlan
       (case floorDisplay s of
          Missing \<Rightarrow> s
        | Element _ \<Rightarrow> s\<lparr>floorDisplay := Element (FloorLabel (currentFloor s))\<rparr>)"

text \<open>
  The click handlers of \<^verbatim>\<open>prev-floor\<close> and \<^verbatim>\<open>next-floor\<close>. An error thrown under a
  handler is reported by the browser and ends the handler; the state stays as the
  handler left it.
\<close>

definition prevFloor :: "client \<Rightarrow> client" where
  "prevFloor s =
     (if currentFloor s > 1
      then state_after (updateFloorDisplay (s\<lparr>currentFloor := currentFloor s - 1\<rparr>))
      else s)"

definition nextFloor :: "client \<Rightarrow> client" where
  "nextFloor s =
     (if currentFloor s < totalFloors s
      then state_after (updateFloorDisplay (s\<lparr>currentFloor := currentFloor s + 1\<rparr>))
      else s)"

subsection \<open>Analysis and chart\<close>

definition updateAnalysis :: "metrics \<Rightarrow> client \<Rightarrow> client" where
  "updateAnalysis m s =
     (case metricsDiv s of
        Missing \<Rightarrow> s
      | Element _ \<Rightarrow>
          s\<lparr>metricsDiv :=
              Element (Analysis (js_or (m ''total_area'') 0) (js_or (m ''room_count'') 0)
                         (js_or (m ''efficiency'') 0) (js_or (m ''circulation_area'') 0))\<rparr>)"

text \<open>
  \<^verbatim>\<open>this.chart\<close> is the doughnut chart, modelled by the data of its one dataset; it
  is \<open>None\<close> when \<^verbatim>\<open>initializeChart\<close> failed (Chart.js not loaded).
\<close>

definition initialChartData :: "real list" where
  "initialChartData = [30, 40, 15, 10, 5]"

definition updateChart :: "metrics \<Rightarrow> client \<Rightarrow> client" where
  "updateChart m s =
     (case chart s of
        None \<Rightarrow> s
      | Some _ \<Rightarrow>
          s\<lparr>chart :=
              Some [js_or (m ''living_area'') 30,
                    js_or (m ''bedroom_area'') 40,
                    js_or (m ''kitchen_area'') 15,
                    js_or (m ''bathroom_area'') 10,
                    js_or (m ''circulation_area'') 5]\<rparr>)"

subsection \<open>generateFloorPlan\<close>

text \<open>
  How the request ended: \<^verbatim>\<open>fetch\<close> or \<^verbatim>\<open>response.json()\<close> rejected with an error
  of some message; the answer came with a status that is not ok; or the answer's body
  parsed to \<open>data\<close>.
\<close>

datatype fetch_outcome = Rejected string | Status int | Json response

text \<open>
  The body of the \<^verbatim>\<open>try\<close> block, from the end of the request on: the error that
  reaches the \<^verbatim>\<open>catch\<close>, if any, and the state. Everything before the request ends
  reads the form only, so the method acts on the state in one step.
\<close>

definition generate_try :: "fetch_outcome \<Rightarrow> client \<Rightarrow> js_error option \<times> client" where
  "generate_try outcome s =
     (case outcome of
        Rejected message \<Rightarrow> (Some (Error message), s)
      | Status n \<Rightarrow> (Some (HttpError n), s)
      | Json d \<Rightarrow>
          if resp_success d then
            (let s1 = s\<lparr>floorPlanData := Some d\<rparr>;
                 s2 = s1\<lparr>totalFloors := (case resp_floors d of Some fs \<Rightarrow> int (length fs) | None \<Rightarrow> 1)\<rparr>;
                 s3 = s2\<lparr>currentFloor := 1\<rparr>;
                 r = renderFloorPlan s3
             in case raised r of
                  Some e \<Rightarrow> (Some e, state_after r)
                | None \<Rightarrow>
                    (None,
                     (case resp_metrics d of
                        None \<Rightarrow> state_after r
                      | Some m \<Rightarrow>
                          (let s4 = updateAnalysis m (state_after r)
                           in case chart s4 of None \<Rightarrow> s4 | Some _ \<Rightarrow> updateChart m s4))))
          else (Some (Error (js_or_string (resp_error d) ''Unknown error from backend'')), s))"

definition generateFloorPlan :: "fetch_outcome \<Rightarrow> client \<Rightarrow> client" where
  "generateFloorPlan outcome s =
     (case generate_try outcome s of
        (None, s') \<Rightarrow> s'
      | (Some e, s') \<Rightarrow> s'\<lparr>alerts := alerts s' @ [GenerationFailed e]\<rparr>)"

subsection \<open>The test rendering\<close>

definition testData :: response where
  "testData =
     \<lparr>resp_success = True,
      resp_floors = Some
        [\<lparr>floor_number = 1, floor_width = 12, floor_length = 10,
          floor_rooms = Some
            [\<lparr>room_type = ''bedroom'', room_x = Some 1, room_y = Some 1,
              room_width = Some 4, room_length = Some 3, room_area = Some 12\<rparr>,
             \<lparr>room_type = ''living'', room_x = Some 6, room_y = Some 1,
              room_width = Some 5, room_length = Some 4, room_area = Some 20\<rparr>,
             \<lparr>room_type = ''kitchen'', room_x = Some 1, room_y = Some 5,
              room_width = Some 4, room_length = Some 3, room_area = Some 12\<rparr>,
             \<lparr>room_type = ''bathroom'', room_x = Some 6, room_y = Some 6,
              room_width = Some 3, room_length = Some 3, room_area = Some 9\<rparr>],
          floor_walls = Some
            [\<lparr>seg_x1 = 1, seg_y1 = 1, seg_x2 = 5, seg_y2 = 1\<rparr>,
             \<lparr>seg_x1 = 5, seg_y1 = 1, seg_x2 = 5, seg_y2 = 4\<rparr>,
             \<lparr>seg_x1 = 5, seg_y1 = 4, seg_x2 = 1, seg_y2 = 4\<rparr>,
             \<lparr>seg_x1 = 1, seg_y1 = 4, seg_x2 = 1, seg_y2 = 1\<rparr>,
             \<lparr>seg_x1 = 6, seg_y1 = 1, seg_x2 = 11, seg_y2 = 1\<rparr>,
             \<lparr>seg_x1 = 11, seg_y1 = 1, seg_x2 = 11, seg_y2 = 5\<rparr>,
             \<lparr>seg_x1 = 11, seg_y1 = 5, seg_x2 = 6, seg_y2 = 5\<rparr>,
             \<lparr>seg_x1 = 6, seg_y1 = 5, seg_x2 = 6, seg_y2 = 1\<rparr>],
          floor_windows = Some
            [\<lparr>seg_x1 = 2, seg_y1 = 1, seg_x2 = 4, seg_y2 = 1\<rparr>,
             \<lparr>seg_x1 = 7, seg_y1 = 1, seg_x2 = 10, seg_y2 = 1\<rparr>],
          floor_doors = Some [\<lparr>door_x = 5, door_y = 2\<rparr>, \<lparr>door_x = 6, door_y = 3\<rparr>],
          floor_metrics =
            [''total_area'' \<mapsto> 53, ''room_count'' \<mapsto> 4, ''efficiency'' \<mapsto> 855 / 10,
             ''circulation_area'' \<mapsto> 8]\<rparr>],
      resp_metrics = Some
        [''total_area'' \<mapsto> 53, ''total_rooms'' \<mapsto> 4, ''floors'' \<mapsto> 1,
         ''average_efficiency'' \<mapsto> 855 / 10],
      resp_error = None\<rparr>"

text \<open>
  \<^verbatim>\<open>testRendering\<close>, the handler of the test button: when the rendering throws, the
  rest of the handler does not run.
\<close>

definition testRendering :: "client \<Rightarrow> client" where
  "testRendering s =
     (let s1 = s\<lparr>floorPlanData := Some testData\<rparr>;
          s2 = s1\<lparr>totalFloors := 1\<rparr>;
          s3 = s2\<lparr>currentFloor := 1\<rparr>;
          r = renderFloorPlan s3
      in case raised r of
           Some e \<Rightarrow> state_after r
         | None \<Rightarrow>
             (case resp_metrics testData of
                None \<Rightarrow> state_after r
              | Some m \<Rightarrow>
                  (let s4 = updateAnalysis m (state_after r)
                   in s4\<lparr>alerts := alerts s4 @ [TestComplete]\<rparr>)))"

subsection \<open>The states the client reaches\<close>

text \<open>
  The constructor sets \<^verbatim>\<open>currentFloor\<close> and \<^verbatim>\<open>totalFloors\<close> to 1 and
  \<^verbatim>\<open>floorPlanData\<close> to \<^verbatim>\<open>null\<close>, and makes the chart with its initial data when
  Chart.js is there. What the page's elements hold is the page's own.
\<close>

definition constructed :: "client \<Rightarrow> bool" where
  "constructed s =
     (currentFloor s = 1 \<and> totalFloors s = 1 \<and> floorPlanData s = None
      \<and> (chart s = None \<or> chart s = Some initialChartData) \<and> alerts s = [])"

text \<open>
  After the constructor the fields change only under the handlers: the generate button
  (with whatever the request brings), the two floor buttons and the test button.
\<close>

inductive reachable :: "client \<Rightarrow> bool" where
  reach_constructed: "constructed s \<Longrightarrow> reachable s"
| reach_generate: "reachable s \<Longrightarrow> reachable (generateFloorPlan outcome s)"
| reach_prev: "reachable s \<Longrightarrow> reachable (prevFloor s)"
| reach_next: "reachable s \<Longrightarrow> reachable (nextFloor s)"
| reach_test: "reachable s \<Longrightarrow> reachable (testRendering s)"

section \<open>The backend's contract\<close>

text \<open>
  The backend (\<^verbatim>\<open>backend/app.py\<close> and \<^verbatim>\<open>backend/ml_engine\<close>) is not among the
  sources. Two parts of it are modelled from the specification, as far as its words fix
  them: the answer to a failed request, and the metrics of a floor.
\<close>

subsection \<open>Failures\<close>

text \<open>
  Modelled from the spec: the error taxonomy of section 7 and the answer the request
  handler makes of a generation's result (the handler is missing from the sources).
  A generation ends in one failure or in a whole building; a failure carries the detail
  it is surfaced with (the room type, the floor). The answer to a failure has
  \<^verbatim>\<open>success: false\<close>, an \<^verbatim>\<open>error\<close> string naming the failure, and no \<^verbatim>\<open>floors\<close>.
\<close>

datatype failure =
    InvalidInput string
  | LayoutInfeasible string
  | StairAlignmentError string
  | GeometryError string

record building =
  building_floors :: "floor_data list"
  building_metrics :: metrics

fun error_string :: "failure \<Rightarrow> string" where
  "error_string (InvalidInput detail) = ''InvalidInput: '' @ detail"
| "error_string (LayoutInfeasible detail) = ''LayoutInfeasible: '' @ detail"
| "error_string (StairAlignmentError detail) = ''StairAlignmentError: '' @ detail"
| "error_string (GeometryError detail) = ''GeometryError: '' @ detail"

text \<open>
  Modelled from the spec: the serialisation of a generation's result by the request
  handler, which is missing from the sources (sections 6 and 7: on any error the whole
  request fails with \<^verbatim>\<open>success: false\<close> and an \<^verbatim>\<open>error\<close> string, and no partial
  \<^verbatim>\<open>floors\<close> array is emitted).
\<close>

definition respond :: "failure + building \<Rightarrow> response" where
  "respond result =
     (case result of
        Inl e \<Rightarrow>
          \<lparr>resp_success = False, resp_floors = None, resp_metrics = None,
           resp_error = Some (error_string e)\<rparr>
      | Inr b \<Rightarrow>
          \<lparr>resp_success = True, resp_floors = Some (building_floors b),
           resp_metrics = Some (building_metrics b), resp_error = None\<rparr>)"

subsection \<open>Metrics of a floor\<close>

text \<open>
  Modelled from the spec: the Metrics Calculator of section 4.7, which is missing from
  the sources. A finalized floor is its footprint and its room instances; a room
  instance is a rectangle \<open>(x, y, width, length)\<close> with a type. The calculator takes
  \<open>total_area\<close> to be the footprint's area, \<open>efficiency\<close> to be
  \<open>100 * (sum of room areas) / total_area\<close> clamped to \<open>[0, 100]\<close>, and
  \<open>circulation_area\<close> to be \<open>total_area\<close> less the sum of room areas.
\<close>

record footprint =
  footprint_width :: real
  footprint_length :: real

record room_instance =
  inst_id :: nat
  inst_type :: string
  inst_x :: real
  inst_y :: real
  inst_width :: real
  inst_length :: real

record floor_metrics_record =
  total_area :: real
  room_count :: nat
  efficiency :: real
  circulation_area :: real
  category_area :: "string \<Rightarrow> real"

definition instance_area :: "room_instance \<Rightarrow> real" where
  "instance_area r = inst_width r * inst_length r"

definition sum_room_areas :: "room_instance list \<Rightarrow> real" where
  "sum_room_areas rs = sum_list (map instance_area rs)"

definition clamp :: "real \<Rightarrow> real \<Rightarrow> real \<Rightarrow> real" where
  "clamp lo hi v = max lo (min hi v)"

text \<open>
  Modelled from the spec: the Metrics Calculator's function on one finalized floor,
  missing from the sources, formula by formula as section 4.7 gives it.
\<close>

definition calculate_metrics :: "footprint \<Rightarrow> room_instance list \<Rightarrow> floor_metrics_record" where
  "calculate_metrics fp rs =
     (let total = footprint_width fp * footprint_length fp
      in \<lparr>total_area = total,
          room_count = length rs,
          efficiency = clamp 0 100 (100 * sum_room_areas rs / total),
          circulation_area = total - sum_room_areas rs,
          category_area = (\<lambda>t. sum_room_areas (filter (\<lambda>r. inst_type r = t) rs))\<rparr>)"

section \<open>Terms of the properties\<close>


text \<open>
  A dimension or a floor count is invalid in the specification's sense when its text is
  no number or the number is not positive (the footprint's invariant is
  \<open>width, length > 0\<close>).
\<close>

definition not_positive :: "string \<Rightarrow> bool" where
  "not_positive v = (case parseInt v of None \<Rightarrow> True | Some n \<Rightarrow> n \<le> 0)"

subsection \<open>Concrete inputs\<close>

text \<open>The client on a page that has every element and Chart.js, before any click.\<close>

definition page_loaded :: client where
  "page_loaded =
     \<lparr>currentFloor = 1, totalFloors = 1, floorPlanData = None, chart = Some initialChartData,
      svgContainer = Element Welcome, metricsDiv = Element NoAnalysis,
      floorDisplay = Element NoLabel, alerts = []\<rparr>"

definition two_floors :: response where
  "two_floors =
     \<lparr>resp_success = True,
      resp_floors = Some
        [\<lparr>floor_number = 1, floor_width = 10, floor_length = 10, floor_rooms = Some [],
          floor_walls = None, floor_windows = None, floor_doors = None,
          floor_metrics = Map.empty\<rparr>,
         \<lparr>floor_number = 2, floor_width = 10, floor_length = 10, floor_rooms = Some [],
          floor_walls = None, floor_windows = None, floor_doors = None,
          floor_metrics = Map.empty\<rparr>],
      resp_metrics = None, resp_error = None\<rparr>"


definition negative_width_form :: form where
  "negative_width_form =
     \<lparr>width_value = ''-5'', length_value = ''10'', floors_value = ''1'',
      room_inputs = [(''bedroom'', ''2'')], style_value = ''modern'',
      furniture_checked = False, windows_checked = True\<rparr>"

definition empty_form :: form where
  "empty_form =
     \<lparr>width_value = [], length_value = ''abc'', floors_value = ''0'',
      room_inputs = [], style_value = [],
      furniture_checked = False, windows_checked = False\<rparr>"

definition room_at_origin :: room where
  "room_at_origin =
     \<lparr>room_type = ''living'', room_x = Some 0, room_y = Some 0,
      room_width = Some 4, room_length = Some 3, room_area = Some 12\<rparr>"

definition scenario_rooms :: "room_instance list" where
  "scenario_rooms =
     [\<lparr>inst_id = 0, inst_type = ''living'', inst_x = 0, inst_y = 0, inst_width = 5, inst_length = 4\<rparr>,
      \<lparr>inst_id = 1, inst_type = ''bedroom'', inst_x = 5, inst_y = 0, inst_width = 4, inst_length = 3\<rparr>]"

section \<open>What the methods leave unchanged\<close>

lemma renderFloorPlan_keeps:
  "currentFloor (state_after (renderFloorPlan s)) = currentFloor s
   \<and> totalFloors (state_after (renderFloorPlan s)) = totalFloors s
   \<and> floorPlanData (state_after (renderFloorPlan s)) = floorPlanData s
   \<and> chart (state_after (renderFloorPlan s)) = chart s
   \<and> alerts (state_after (renderFloorPlan s)) = alerts s"
  by (simp add: renderFloorPlan_def showErrorMessage_def drawFloor_def Let_def
      split: option.splits element.splits)

lemma updateAnalysis_keeps:
  "currentFloor (updateAnalysis m s) = currentFloor s
   \<and> totalFloors (updateAnalysis m s) = totalFloors s
   \<and> floorPlanData (updateAnalysis m s) = floorPlanData s
   \<and> chart (updateAnalysis m s) = chart s
   \<and> alerts (updateAnalysis m s) = alerts s"
  by (simp add: updateAnalysis_def split: element.splits)

lemma updateChart_keeps:
  "currentFloor (updateChart m s) = currentFloor s
   \<and> totalFloors (updateChart m s) = totalFloors s
   \<and> floorPlanData (updateChart m s) = floorPlanData s
   \<and> alerts (updateChart m s) = alerts s"
  by (simp add: updateChart_def split: option.splits)

lemma updateFloorDisplay_keeps:
  "currentFloor (state_after (updateFloorDisplay s)) = currentFloor s
   \<and> totalFloors (state_after (updateFloorDisplay s)) = totalFloors s
   \<and> floorPlanData (state_after (updateFloorDisplay s)) = floorPlanData s"
  by (simp add: updateFloorDisplay_def renderFloorPlan_keeps split: element.splits)

section \<open>generateFloorPlan, case by case\<close>

lemma generate_success:
  assumes "resp_success d"
  shows "currentFloor (generateFloorPlan (Json d) s) = 1"
    and "totalFloors (generateFloorPlan (Json d) s) =
           (case resp_floors d of Some fs \<Rightarrow> int (length fs) | None \<Rightarrow> 1)"
    and "floorPlanData (generateFloorPlan (Json d) s) = Some d"
  using assms
  by (simp_all add: generateFloorPlan_def generate_try_def Let_def renderFloorPlan_keeps
      updateAnalysis_keeps updateChart_keeps split: option.splits prod.splits)

lemma generate_failure:
  assumes "\<not> resp_success d"
  shows "generateFloorPlan (Json d) s =
           s\<lparr>alerts := alerts s @
                [GenerationFailed (Error (js_or_string (resp_error d) ''Unknown error from backend''))]\<rparr>"
  using assms by (simp add: generateFloorPlan_def generate_try_def)

lemma generate_no_answer:
  "generateFloorPlan (Rejected message) s = s\<lparr>alerts := alerts s @ [GenerationFailed (Error message)]\<rparr>"
  "generateFloorPlan (Status n) s = s\<lparr>alerts := alerts s @ [GenerationFailed (HttpError n)]\<rparr>"
  by (simp_all add: generateFloorPlan_def generate_try_def)

lemma generate_keeps_or_stores:
  "floorPlanData (generateFloorPlan outcome s) = floorPlanData s
   \<or> (\<exists>d. outcome = Json d \<and> resp_success d \<and> floorPlanData (generateFloorPlan outcome s) = Some d)"
proof (cases outcome)
  case (Rejected message)
  then show ?thesis by (simp add: generate_no_answer)
next
  case (Status n)
  then show ?thesis by (simp add: generate_no_answer)
next
  case (Json d)
  then show ?thesis
    by (cases "resp_success d") (simp_all add: generate_success generate_failure)
qed

section \<open>The floor buttons\<close>

lemma prevFloor_fields:
  "currentFloor (prevFloor s) = (if currentFloor s > 1 then currentFloor s - 1 else currentFloor s)"
  "totalFloors (prevFloor s) = totalFloors s"
  "floorPlanData (prevFloor s) = floorPlanData s"
  by (simp_all add: prevFloor_def updateFloorDisplay_keeps)

lemma nextFloor_fields:
  "currentFloor (nextFloor s) =
     (if currentFloor s < totalFloors s then currentFloor s + 1 else currentFloor s)"
  "totalFloors (nextFloor s) = totalFloors s"
  "floorPlanData (nextFloor s) = floorPlanData s"
  by (simp_all add: nextFloor_def updateFloorDisplay_keeps)

lemma testRendering_fields:
  "currentFloor (testRendering s) = 1"
  "totalFloors (testRendering s) = 1"
  "floorPlanData (testRendering s) = Some testData"
  by (simp_all add: testRendering_def Let_def renderFloorPlan_keeps updateAnalysis_keeps
      split: option.splits)

text \<open>
  Claim C8. After a successful generation whose floors array is not empty,
  \<open>currentFloor\<close> is 1 and \<open>totalFloors\<close> is the number of floors. The two floor
  buttons keep \<open>1 \<le> currentFloor \<le> totalFloors\<close> where it held: the previous-floor
  button takes one off \<open>currentFloor\<close> exactly when it is above 1, the next-floor button
  adds one exactly when it is below \<open>totalFloors\<close>, and neither touches
  \<open>totalFloors\<close>.
\<close>

theorem floor_navigation_invariant:
  "(resp_success d \<and> resp_floors d = Some fs \<and> fs \<noteq> [] \<longrightarrow>
      currentFloor (generateFloorPlan (Json d) s) = 1
      \<and> totalFloors (generateFloorPlan (Json d) s) = int (length fs))
   \<and> (1 \<le> currentFloor s \<and> currentFloor s \<le> totalFloors s \<longrightarrow>
        1 \<le> currentFloor (prevFloor s) \<and> currentFloor (prevFloor s) \<le> totalFloors (prevFloor s)
        \<and> 1 \<le> currentFloor (nextFloor s) \<and> currentFloor (nextFloor s) \<le> totalFloors (nextFloor s))
   \<and> currentFloor (prevFloor s) = (if currentFloor s > 1 then currentFloor s - 1 else currentFloor s)
   \<and> currentFloor (nextFloor s) =
        (if currentFloor s < totalFloors s then currentFloor s + 1 else currentFloor s)
   \<and> totalFloors (prevFloor s) = totalFloors s
   \<and> totalFloors (nextFloor s) = totalFloors s"
  by (simp add: generate_success prevFloor_fields nextFloor_fields)

text \<open>
  A building of two floors arrives on the loaded page: the client stands on floor 1 of
  2; next goes to 2 and stops there, previous goes back to 1 and stops there.
\<close>

theorem floor_navigation_invariant_witness:
  "resp_success two_floors
   \<and> currentFloor (generateFloorPlan (Json two_floors) page_loaded) = 1
   \<and> totalFloors (generateFloorPlan (Json two_floors) page_loaded) = 2
   \<and> currentFloor (nextFloor (generateFloorPlan (Json two_floors) page_loaded)) = 2
   \<and> currentFloor (nextFloor (nextFloor (generateFloorPlan (Json two_floors) page_loaded))) = 2
   \<and> currentFloor (prevFloor (nextFloor (generateFloorPlan (Json two_floors) page_loaded))) = 1
   \<and> currentFloor (prevFloor (generateFloorPlan (Json two_floors) page_loaded)) = 1"
proof -
  let ?g = "generateFloorPlan (Json two_floors) page_loaded"
  have d: "resp_success two_floors"
    "resp_floors two_floors = Some (the (resp_floors two_floors))"
    "the (resp_floors two_floors) \<noteq> []"
    "int (length (the (resp_floors two_floors))) = 2"
    by (simp_all add: two_floors_def)
  from floor_navigation_invariant [of two_floors "the (resp_floors two_floors)" page_loaded] d
  have g: "currentFloor ?g = 1" "totalFloors ?g = 2" by simp_all
  from floor_navigation_invariant [of two_floors "[]" ?g] g
  have n: "currentFloor (nextFloor ?g) = 2" "totalFloors (nextFloor ?g) = 2"
    "currentFloor (prevFloor ?g) = 1"
    by simp_all
  from floor_navigation_invariant [of two_floors "[]" "nextFloor ?g"] n
  have m: "currentFloor (nextFloor (nextFloor ?g)) = 2" "currentFloor (prevFloor (nextFloor ?g)) = 1"
    by simp_all
  from d g n m show ?thesis by simp
qed

section \<open>The floor lookup of renderFloorPlan\<close>

lemma generate_currentFloor:
  "1 \<le> currentFloor s \<Longrightarrow> 1 \<le> currentFloor (generateFloorPlan outcome s)"
proof (cases outcome)
  case (Rejected message)
  assume "1 \<le> currentFloor s"
  with Rejected show ?thesis by (simp add: generate_no_answer)
next
  case (Status n)
  assume "1 \<le> currentFloor s"
  with Status show ?thesis by (simp add: generate_no_answer)
next
  case (Json d)
  assume a: "1 \<le> currentFloor s"
  show ?thesis
  proof (cases "resp_success d")
    case True
    with Json show ?thesis by (simp add: generate_success)
  next
    case False
    with Json a show ?thesis by (simp add: generate_failure)
  qed
qed

text \<open>In every state the client reaches, \<open>currentFloor\<close> is at least 1.\<close>

lemma reachable_currentFloor: "reachable s \<Longrightarrow> 1 \<le> currentFloor s"
proof (induction rule: reachable.induct)
  case (reach_constructed s)
  then show ?case by (simp add: constructed_def)
next
  case (reach_generate s outcome)
  then show ?case by (simp add: generate_currentFloor)
next
  case (reach_prev s)
  then show ?case by (simp add: prevFloor_fields)
next
  case (reach_next s)
  then show ?case by (simp add: nextFloor_fields)
next
  case (reach_test s)
  show ?case by (simp add: testRendering_fields)
qed

lemma page_loaded_reachable: "reachable page_loaded"
  by (rule reach_constructed) (simp add: constructed_def page_loaded_def)






section \<open>The chart\<close>

text \<open>
  Claim C9. When the chart exists, \<^verbatim>\<open>updateChart\<close> on a metrics object that has no
  field but those of the output contract (\<open>total_area\<close>, \<open>total_rooms\<close>,
  \<open>floors\<close>, \<open>average_efficiency\<close>) sets the dataset to \<open>[30, 40, 15, 10, 5]\<close>.
  For any metrics object the dataset gets five values, and each is its default when the
  field it is read from (\<open>living_area\<close>, \<open>bedroom_area\<close>, \<open>kitchen_area\<close>,
  \<open>bathroom_area\<close>, \<open>circulation_area\<close>) is absent or zero.
\<close>

theorem updateChart_defaults:
  assumes "chart s = Some old"
  shows "(dom m \<subseteq> {''total_area'', ''total_rooms'', ''floors'', ''average_efficiency''} \<longrightarrow>
            chart (updateChart m s) = Some [30, 40, 15, 10, 5])
    \<and> (\<exists>a b c d e. chart (updateChart m s) = Some [a, b, c, d, e]
          \<and> (m ''living_area'' = None \<or> m ''living_area'' = Some 0 \<longrightarrow> a = 30)
          \<and> (m ''bedroom_area'' = None \<or> m ''bedroom_area'' = Some 0 \<longrightarrow> b = 40)
          \<and> (m ''kitchen_area'' = None \<or> m ''kitchen_area'' = Some 0 \<longrightarrow> c = 15)
          \<and> (m ''bathroom_area'' = None \<or> m ''bathroom_area'' = Some 0 \<longrightarrow> d = 10)
          \<and> (m ''circulation_area'' = None \<or> m ''circulation_area'' = Some 0 \<longrightarrow> e = 5))"
proof -
  have absent: "m k = None"
    if "dom m \<subseteq> {''total_area'', ''total_rooms'', ''floors'', ''average_efficiency''}"
      and "k \<in> {''living_area'', ''bedroom_area'', ''kitchen_area'', ''bathroom_area'', ''circulation_area''}"
    for k
  proof (rule ccontr)
    assume "m k \<noteq> None"
    then have "k \<in> dom m" by (simp add: dom_def)
    with that(1) have "k \<in> {''total_area'', ''total_rooms'', ''floors'', ''average_efficiency''}"
      by blast
    with that(2) show False by auto
  qed
  have first: "dom m \<subseteq> {''total_area'', ''total_rooms'', ''floors'', ''average_efficiency''} \<longrightarrow>
            chart (updateChart m s) = Some [30, 40, 15, 10, 5]"
    using assms absent by (simp add: updateChart_def js_or_def)
  have second: "\<exists>a b c d e. chart (updateChart m s) = Some [a, b, c, d, e]
          \<and> (m ''living_area'' = None \<or> m ''living_area'' = Some 0 \<longrightarrow> a = 30)
          \<and> (m ''bedroom_area'' = None \<or> m ''bedroom_area'' = Some 0 \<longrightarrow> b = 40)
          \<and> (m ''kitchen_area'' = None \<or> m ''kitchen_area'' = Some 0 \<longrightarrow> c = 15)
          \<and> (m ''bathroom_area'' = None \<or> m ''bathroom_area'' = Some 0 \<longrightarrow> d = 10)
          \<and> (m ''circulation_area'' = None \<or> m ''circulation_area'' = Some 0 \<longrightarrow> e = 5)"
    using assms by (auto simp add: updateChart_def js_or_def)
  from first second show ?thesis by blast
qed

text \<open>
  On the loaded page, the building metrics of the client's own test data, which have
  the contract's four fields, leave the chart at \<open>[30, 40, 15, 10, 5]\<close>.
\<close>

theorem updateChart_defaults_witness:
  "chart page_loaded = Some initialChartData
   \<and> chart (updateChart [''total_area'' \<mapsto> 53, ''total_rooms'' \<mapsto> 4, ''floors'' \<mapsto> 1,
         ''average_efficiency'' \<mapsto> 855 / 10] page_loaded) = Some [30, 40, 15, 10, 5]"
proof -
  have c: "chart page_loaded = Some initialChartData" by (simp add: page_loaded_def)
  have d: "dom [''total_area'' \<mapsto> 53::real, ''total_rooms'' \<mapsto> 4, ''floors'' \<mapsto> 1,
         ''average_efficiency'' \<mapsto> 855 / 10]
       \<subseteq> {''total_area'', ''total_rooms'', ''floors'', ''average_efficiency''}"
    by auto
  from updateChart_defaults [OF c] d c show ?thesis by blast
qed

section \<open>Failures\<close>

lemma error_string_not_empty: "error_string e \<noteq> []"
  by (cases e) simp_all

text \<open>
  Claim C3. For every failure kind of the taxonomy, the answer has \<^verbatim>\<open>success\<close> false,
  carries the error string and has no floors (and there is no building: a generation
  ends in a failure or in a building, not both). On that answer, and on every answer
  whose \<^verbatim>\<open>success\<close> is false, \<^verbatim>\<open>generateFloorPlan\<close> leaves the client's state as it
  was but for the alert that reports the error raised: the answer's error string, or
  \<open>Unknown error from backend\<close> when the string is absent or empty. Whatever the
  request brings, \<^verbatim>\<open>floorPlanData\<close> either stays or is the body of an answer whose
  \<^verbatim>\<open>success\<close> is true.
\<close>

theorem failure_is_atomic:
  "\<not> resp_success (respond (Inl e))
   \<and> resp_error (respond (Inl e)) = Some (error_string e)
   \<and> resp_floors (respond (Inl e)) = None
   \<and> generateFloorPlan (Json (respond (Inl e))) s =
        s\<lparr>alerts := alerts s @ [GenerationFailed (Error (error_string e))]\<rparr>
   \<and> (\<forall>d. \<not> resp_success d \<longrightarrow>
          generateFloorPlan (Json d) s =
            s\<lparr>alerts := alerts s @
                 [GenerationFailed (Error (js_or_string (resp_error d) ''Unknown error from backend''))]\<rparr>)
   \<and> (\<forall>outcome.
          floorPlanData (generateFloorPlan outcome s) = floorPlanData s
          \<or> (\<exists>d. outcome = Json d \<and> resp_success d
                \<and> floorPlanData (generateFloorPlan outcome s) = Some d))"
proof -
  have r: "\<not> resp_success (respond (Inl e))"
    "resp_error (respond (Inl e)) = Some (error_string e)"
    "resp_floors (respond (Inl e)) = None"
    by (simp_all add: respond_def)
  have g: "generateFloorPlan (Json (respond (Inl e))) s =
        s\<lparr>alerts := alerts s @ [GenerationFailed (Error (error_string e))]\<rparr>"
    using r(1) by (simp add: generate_failure r(2) js_or_string_def error_string_not_empty)
  from r g show ?thesis
    using generate_failure generate_keeps_or_stores by blast
qed

text \<open>
  On the loaded page: the answer to an infeasible layout, and an answer that fails
  without an error string.
\<close>

theorem failure_is_atomic_witness:
  "\<not> resp_success (respond (Inl (LayoutInfeasible ''bedroom'')))
   \<and> resp_floors (respond (Inl (LayoutInfeasible ''bedroom''))) = None
   \<and> generateFloorPlan (Json (respond (Inl (LayoutInfeasible ''bedroom'')))) page_loaded =
        page_loaded\<lparr>alerts := [GenerationFailed (Error ''LayoutInfeasible: bedroom'')]\<rparr>
   \<and> generateFloorPlan
        (Json \<lparr>resp_success = False, resp_floors = None, resp_metrics = None, resp_error = None\<rparr>)
        page_loaded =
        page_loaded\<lparr>alerts := [GenerationFailed (Error ''Unknown error from backend'')]\<rparr>"
proof -
  have a: "alerts page_loaded = []" by (simp add: page_loaded_def)
  have n: "\<not> resp_success \<lparr>resp_success = False, resp_floors = None, resp_metrics = None, resp_error = None\<rparr>"
    by simp
  from failure_is_atomic [of "LayoutInfeasible ''bedroom''" page_loaded] a n
  show ?thesis by (simp add: js_or_string_def)
qed

section \<open>The request's defaults\<close>

lemma parseInt_empty: "parseInt [] = None"
  by (simp add: parseInt_def)

lemma parseInt_examples:
  "parseInt ''-5'' = Some (- 5)"
  "parseInt ''abc'' = None"
  "parseInt ''0'' = Some 0"
  by (simp_all add: parseInt_def isWhiteSpace_def digitValue_def)

text \<open>
  Claim C4, as it is stated, fails where a field is invalid by being negative: the
  width \<open>-5\<close> is not positive, and the request carries \<open>-5\<close>, not the default 12.
\<close>

theorem negative_width_not_defaulted:
  "not_positive (width_value negative_width_form)
   \<and> spec_width (getInputSpecifications negative_width_form) = - 5
   \<and> spec_width (getInputSpecifications negative_width_form) \<noteq> 12"
  by (simp add: not_positive_def negative_width_form_def getInputSpecifications_def
      parseInt_examples js_or_def)

text \<open>
  Claim C4, amended. In every request the client assembles, a width, length or floor
  count whose text is empty, does not begin with a number, or parses to 0 is replaced by
  its default (12, 10, 1), and every other parsed value, a negative one too, is sent as
  parsed. The rooms are \<open>[{bedroom, 2}, {living, 1}]\<close> when the page has no room input
  and the rooms it has otherwise; the style is \<open>modern\<close> when the style's value is
  empty and that value otherwise.
\<close>

theorem request_defaults:
  "(parseInt (width_value f) = None \<or> parseInt (width_value f) = Some 0 \<longrightarrow>
      spec_width (getInputSpecifications f) = 12)
   \<and> (\<forall>n. parseInt (width_value f) = Some n \<and> n \<noteq> 0 \<longrightarrow> spec_width (getInputSpecifications f) = n)
   \<and> (parseInt (length_value f) = None \<or> parseInt (length_value f) = Some 0 \<longrightarrow>
      spec_length (getInputSpecifications f) = 10)
   \<and> (\<forall>n. parseInt (length_value f) = Some n \<and> n \<noteq> 0 \<longrightarrow> spec_length (getInputSpecifications f) = n)
   \<and> (parseInt (floors_value f) = None \<or> parseInt (floors_value f) = Some 0 \<longrightarrow>
      spec_floors (getInputSpecifications f) = 1)
   \<and> (\<forall>n. parseInt (floors_value f) = Some n \<and> n \<noteq> 0 \<longrightarrow> spec_floors (getInputSpecifications f) = n)
   \<and> (room_inputs f = [] \<longrightarrow>
        spec_rooms (getInputSpecifications f) =
          [\<lparr>req_type = ''bedroom'', req_count = 2\<rparr>, \<lparr>req_type = ''living'', req_count = 1\<rparr>])
   \<and> (room_inputs f \<noteq> [] \<longrightarrow> spec_rooms (getInputSpecifications f) = roomReqs f)
   \<and> (style_value f = [] \<longrightarrow> spec_style (getInputSpecifications f) = ''modern'')
   \<and> (style_value f \<noteq> [] \<longrightarrow> spec_style (getInputSpecifications f) = style_value f)
   \<and> (width_value f = [] \<longrightarrow> spec_width (getInputSpecifications f) = 12)
   \<and> (length_value f = [] \<longrightarrow> spec_length (getInputSpecifications f) = 10)
   \<and> (floors_value f = [] \<longrightarrow> spec_floors (getInputSpecifications f) = 1)"
  by (auto simp add: getInputSpecifications_def js_or_def roomReqs_def default_rooms_def parseInt_empty)

text \<open>
  A form with an empty width, a length that is no number, a floor count of 0, no room
  input and no style gives the request of defaults; the width \<open>-5\<close> is sent as it is.
\<close>

theorem request_defaults_witness:
  "getInputSpecifications empty_form =
     \<lparr>spec_width = 12, spec_length = 10, spec_floors = 1,
      spec_rooms = [\<lparr>req_type = ''bedroom'', req_count = 2\<rparr>, \<lparr>req_type = ''living'', req_count = 1\<rparr>],
      spec_style = ''modern'', spec_include_furniture = False, spec_include_windows = False\<rparr>
   \<and> spec_width (getInputSpecifications negative_width_form) = - 5"
proof -
  have e: "width_value empty_form = []" "parseInt (length_value empty_form) = None"
    "parseInt (floors_value empty_form) = Some 0" "room_inputs empty_form = []"
    "style_value empty_form = []"
    by (simp_all add: empty_form_def parseInt_examples)
  have n: "parseInt (width_value negative_width_form) = Some (- 5)"
    by (simp add: negative_width_form_def parseInt_examples)
  have b: "spec_include_furniture (getInputSpecifications empty_form) = False"
    "spec_include_windows (getInputSpecifications empty_form) = False"
    by (simp_all add: getInputSpecifications_def empty_form_def)
  from request_defaults [of empty_form] e
  have 1: "spec_width (getInputSpecifications empty_form) = 12"
    "spec_length (getInputSpecifications empty_form) = 10"
    "spec_floors (getInputSpecifications empty_form) = 1"
    "spec_rooms (getInputSpecifications empty_form) =
       [\<lparr>req_type = ''bedroom'', req_count = 2\<rparr>, \<lparr>req_type = ''living'', req_count = 1\<rparr>]"
    "spec_style (getInputSpecifications empty_form) = ''modern''"
    by simp_all
  from request_defaults [of negative_width_form] n
  have 2: "spec_width (getInputSpecifications negative_width_form) = - 5" by simp
  from 1 2 b show ?thesis
    by (cases "getInputSpecifications empty_form") simp
qed

section \<open>The pixel scale\<close>

text \<open>
  The view box and the walls are at 50 pixels per unit, and so is every room whose
  \<open>x\<close>, \<open>y\<close>, \<open>width\<close> and \<open>length\<close> are numbers other than 0.
\<close>

lemma floorSvg_viewBox:
  "viewBox (floorSvg f) = (0, 0, floor_width f * 50, floor_length f * 50)"
  by (simp add: floorSvg_def)

lemma renderWall_scaled:
  "renderWall w = WallLine (seg_x1 w * 50) (seg_y1 w * 50) (seg_x2 w * 50) (seg_y2 w * 50)"
  by (simp add: renderWall_def)

lemma floorSvg_walls:
  "floor_walls f = Some ws \<Longrightarrow> w \<in> set ws \<Longrightarrow>
   WallLine (seg_x1 w * 50) (seg_y1 w * 50) (seg_x2 w * 50) (seg_y2 w * 50)
     \<in> set (children (floorSvg f))"
  by (auto simp add: floorSvg_def renderWall_def)

lemma renderRoom_scaled:
  assumes "room_x r = Some x" "x \<noteq> 0" "room_y r = Some y" "y \<noteq> 0"
    and "room_width r = Some w" "w \<noteq> 0" "room_length r = Some l" "l \<noteq> 0"
  shows "\<exists>cx cy. renderRoom r =
     RoomGroup \<lparr>rect_x = x * 50, rect_y = y * 50, rect_width = w * 50, rect_height = l * 50,
                rect_fill = getRoomColor (room_type r)\<rparr> cx cy"
  using assms by (simp add: renderRoom_def js_or_def Let_def)

lemma floorSvg_rooms:
  "floor_rooms f = Some rs \<Longrightarrow> r \<in> set rs \<Longrightarrow> renderRoom r \<in> set (children (floorSvg f))"
  by (auto simp add: floorSvg_def)

text \<open>
  Claim C5 fails for a room that starts at the footprint's origin: \<^verbatim>\<open>room.x || 1\<close>
  takes the coordinate 0 for a missing one. The room \<open>(0, 0, 4, 3)\<close> is drawn at the
  pixel position \<open>(50, 50)\<close>, where the claim has \<open>(0, 0)\<close>; its size, \<open>200\<close> by
  \<open>150\<close>, is as the claim has it.
\<close>

theorem room_at_origin_drawn_shifted:
  "renderRoom room_at_origin =
     RoomGroup \<lparr>rect_x = 50, rect_y = 50, rect_width = 200, rect_height = 150,
                rect_fill = ''#2ecc71''\<rparr> 150 125"
  by (simp add: renderRoom_def room_at_origin_def js_or_def getRoomColor_def Let_def)

section \<open>Metrics of a floor\<close>

text \<open>
  Claim C6. For a floor whose footprint has positive width and length, the efficiency
  is \<open>100 * (sum of room areas) / total_area\<close> clamped to \<open>[0, 100]\<close>, so it lies
  between 0 and 100, and \<open>circulation_area\<close> plus the sum of room areas is
  \<open>total_area\<close> to within \<open>1e-6\<close> (exactly, in exact arithmetic).
\<close>

theorem metrics_within_bounds:
  assumes "0 < footprint_width fp" and "0 < footprint_length fp"
  shows "efficiency (calculate_metrics fp rs) =
           clamp 0 100 (100 * sum_room_areas rs / total_area (calculate_metrics fp rs))
    \<and> 0 \<le> efficiency (calculate_metrics fp rs)
    \<and> efficiency (calculate_metrics fp rs) \<le> 100
    \<and> \<bar>circulation_area (calculate_metrics fp rs) + sum_room_areas rs
         - total_area (calculate_metrics fp rs)\<bar> \<le> 1 / 10 ^ 6
    \<and> total_area (calculate_metrics fp rs) = footprint_width fp * footprint_length fp
    \<and> 0 < total_area (calculate_metrics fp rs)"
  using assms by (simp add: calculate_metrics_def clamp_def Let_def)

text \<open>Two rooms of 20 and 12 square units on a footprint of 12 by 10.\<close>

theorem metrics_within_bounds_witness:
  "efficiency (calculate_metrics \<lparr>footprint_width = 12, footprint_length = 10\<rparr> scenario_rooms) = 80 / 3
   \<and> circulation_area (calculate_metrics \<lparr>footprint_width = 12, footprint_length = 10\<rparr> scenario_rooms) = 88
   \<and> total_area (calculate_metrics \<lparr>footprint_width = 12, footprint_length = 10\<rparr> scenario_rooms) = 120"
proof -
  have s: "sum_room_areas scenario_rooms = 32"
    by (simp add: sum_room_areas_def scenario_rooms_def instance_area_def)
  from metrics_within_bounds [of "\<lparr>footprint_width = 12, footprint_length = 10\<rparr>" scenario_rooms]
  show ?thesis by (simp add: s clamp_def calculate_metrics_def)
qed

end
